theory Spec2Isabelle
  imports Complex_Main "HOL-Library.Multiset"
begin

section \<open>Python helpers shared by the agents\<close>









section \<open>scraping\_agent.py\<close>

















subsection \<open>What the specification says of one URL\<close>












section \<open>retriever\_agent.py\<close>

datatype dtype = Float32 | Float64 | Int64

text \<open>
  A two-dimensional \<open>numpy.ndarray\<close>: its dtype, \<open>shape[1]\<close> and its rows, so that
  \<open>shape[0]\<close> is the number of rows. Entries are real numbers: rounding is not modelled.
\<close>

record ndarray =
  nd_dtype :: dtype
  nd_cols :: nat
  nd_rows :: "real list list"

definition shape0 :: "ndarray \<Rightarrow> nat" where
  "shape0 a = length (nd_rows a)"

type_synonym metadata = "(string \<times> string) list"

datatype retriever_error =
    TextsEmbeddingsMismatch nat nat
  | MetadataLengthMismatch
  | EmbeddingsNotFloat32
  | IndexEmpty
  | QueryNotFloat32
  | FaissAssertion
  | IndexError

record base_retriever =
  texts :: "string list"
  embeddings :: "real list list"
  metadata :: "metadata list"

record faiss_retriever = base_retriever +
  faiss_index :: "real list list"
  embedding_dim :: nat

record entry =
  entry_text :: string
  entry_embedding :: "real list"
  entry_metadata :: metadata

definition base_init :: base_retriever where
  "base_init = \<lparr> texts = [], embeddings = [], metadata = [] \<rparr>"

definition faiss_init :: "nat \<Rightarrow> faiss_retriever" where
  "faiss_init d = \<lparr> texts = [], embeddings = [], metadata = [], faiss_index = [], embedding_dim = d \<rparr>"

text \<open>
  \<open>BaseRetriever.add_texts\<close>. The optional \<open>metadata\<close> argument is truthy when it is a
  non-empty list. Both checks come before the first \<open>extend\<close>.
\<close>

definition add_texts ::
  "string list \<Rightarrow> ndarray \<Rightarrow> metadata list option \<Rightarrow> 'a base_retriever_scheme
     \<Rightarrow> (retriever_error + unit) \<times> 'a base_retriever_scheme" where
  "add_texts ts emb md r =
     (if length ts \<noteq> shape0 emb then (Inl (TextsEmbeddingsMismatch (length ts) (shape0 emb)), r)
      else case md of
          None \<Rightarrow>
            (Inr (), r\<lparr> texts := texts r @ ts, embeddings := embeddings r @ nd_rows emb,
                        metadata := metadata r @ map (\<lambda>_. []) ts \<rparr>)
        | Some m \<Rightarrow>
            if m \<noteq> [] \<and> length m \<noteq> length ts then (Inl MetadataLengthMismatch, r)
            else (Inr (), r\<lparr> texts := texts r @ ts, embeddings := embeddings r @ nd_rows emb,
                        metadata := metadata r @ (if m \<noteq> [] then m else map (\<lambda>_. []) ts) \<rparr>))"

definition get_all :: "'a base_retriever_scheme \<Rightarrow> entry list" where
  "get_all r =
     map (\<lambda>(t, e, m). \<lparr> entry_text = t, entry_embedding = e, entry_metadata = m \<rparr>)
       (zip (texts r) (zip (embeddings r) (metadata r)))"

text \<open>
  \<open>faiss.IndexFlatL2\<close>: the stored vectors in insertion order. \<open>add\<close> asserts that the
  array has the index's dimension. \<open>search\<close> asserts the dimension of the query and
  \<open>k > 0\<close>, and returns \<open>k\<close> labels: the positions of the stored vectors by increasing
  squared L2 distance to the query (ties in insertion order), then \<open>-1\<close> for every
  missing neighbour.
\<close>

definition index_add :: "nat \<Rightarrow> real list list \<Rightarrow> ndarray \<Rightarrow> retriever_error + real list list" where
  "index_add d idx emb = (if nd_cols emb = d then Inr (idx @ nd_rows emb) else Inl FaissAssertion)"

definition l2_sq :: "real list \<Rightarrow> real list \<Rightarrow> real" where
  "l2_sq q v = sum_list (map (\<lambda>(a, b). (a - b) * (a - b)) (zip q v))"

definition knn :: "real list \<Rightarrow> real list list \<Rightarrow> nat \<Rightarrow> nat list" where
  "knn q idx k = take k (sort_key (\<lambda>i. l2_sq q (idx ! i)) [0..<length idx])"

definition index_search ::
  "nat \<Rightarrow> real list list \<Rightarrow> real list \<Rightarrow> int \<Rightarrow> retriever_error + int list" where
  "index_search d idx q k =
     (if length q \<noteq> d \<or> k \<le> 0 then Inl FaissAssertion
      else Inr (map int (knn q idx (nat k)) @ replicate (nat k - length idx) (- 1)))"

definition faiss_add_texts ::
  "string list \<Rightarrow> ndarray \<Rightarrow> metadata list option \<Rightarrow> faiss_retriever
     \<Rightarrow> (retriever_error + unit) \<times> faiss_retriever" where
  "faiss_add_texts ts emb md r =
     (if nd_dtype emb \<noteq> Float32 then (Inl EmbeddingsNotFloat32, r)
      else case add_texts ts emb md r of
          (Inl e, r') \<Rightarrow> (Inl e, r')
        | (Inr u, r') \<Rightarrow>
            (case index_add (embedding_dim r') (faiss_index r') emb of
               Inl e \<Rightarrow> (Inl e, r')
             | Inr idx \<Rightarrow> (Inr (), r'\<lparr> faiss_index := idx \<rparr>)))"

text \<open>Python list indexing by an \<open>int\<close>: negative indices count from the end.\<close>

definition py_nth :: "'a list \<Rightarrow> int \<Rightarrow> retriever_error + 'a" where
  "py_nth xs i =
     (if 0 \<le> i \<and> i < int (length xs) then Inr (xs ! nat i)
      else if i < 0 \<and> - int (length xs) \<le> i then Inr (xs ! nat (int (length xs) + i))
      else Inl IndexError)"

definition entry_at :: "'a base_retriever_scheme \<Rightarrow> int \<Rightarrow> retriever_error + entry" where
  "entry_at r i =
     (case py_nth (texts r) i of Inl e \<Rightarrow> Inl e | Inr t \<Rightarrow>
      case py_nth (embeddings r) i of Inl e \<Rightarrow> Inl e | Inr v \<Rightarrow>
      case py_nth (metadata r) i of Inl e \<Rightarrow> Inl e | Inr m \<Rightarrow>
        Inr \<lparr> entry_text = t, entry_embedding = v, entry_metadata = m \<rparr>)"

fun collect :: "'a base_retriever_scheme \<Rightarrow> int list \<Rightarrow> retriever_error + entry list" where
  "collect r [] = Inr []"
| "collect r (i # rest) =
     (if i \<noteq> - 1 then
        (case entry_at r i of
           Inl e \<Rightarrow> Inl e
         | Inr x \<Rightarrow> (case collect r rest of Inl e \<Rightarrow> Inl e | Inr xs \<Rightarrow> Inr (x # xs)))
      else collect r rest)"

record query =
  q_dtype :: dtype
  q_values :: "real list"

definition faiss_retrieve :: "query \<Rightarrow> int \<Rightarrow> faiss_retriever \<Rightarrow> retriever_error + entry list" where
  "faiss_retrieve query_embedding top_k r =
     (if length (faiss_index r) = 0 then Inl IndexEmpty
      else if q_dtype query_embedding \<noteq> Float32 then Inl QueryNotFloat32
      else case index_search (embedding_dim r) (faiss_index r) (q_values query_embedding) top_k of
          Inl e \<Rightarrow> Inl e
        | Inr indices \<Rightarrow> collect r indices)"

text \<open>
  The state of a store whose index and lists have grown together: every successful
  \<open>FAISSRetriever.add_texts\<close> keeps it.
\<close>

definition store_ok :: "faiss_retriever \<Rightarrow> bool" where
  "store_ok r = (faiss_index r = embeddings r \<and> length (texts r) = length (embeddings r)
      \<and> length (metadata r) = length (embeddings r))"

text \<open>A store of three two-dimensional vectors, for concrete runs.\<close>

definition demo_array :: ndarray where
  "demo_array = \<lparr> nd_dtype = Float32, nd_cols = 2, nd_rows = [[0, 0], [3, 4], [1, 0]] \<rparr>"

definition demo_store :: faiss_retriever where
  "demo_store = snd (faiss_add_texts [''a'', ''b'', ''c''] demo_array None (faiss_init 2))"

definition demo_query :: query where
  "demo_query = \<lparr> q_dtype = Float32, q_values = [1, 1] \<rparr>"

text \<open>
  The store reached from a new \<open>FAISSRetriever(d)\<close> by a sequence of \<open>add_texts\<close>
  calls, the caller going on after a call that raised. A call fits the store when its
  array has \<open>d\<close> columns.
\<close>

type_synonym add_call = "string list \<times> ndarray \<times> metadata list option"

definition run_adds :: "nat \<Rightarrow> add_call list \<Rightarrow> faiss_retriever" where
  "run_adds d calls =
     foldl (\<lambda>r (ts, emb, md). snd (faiss_add_texts ts emb md r)) (faiss_init d) calls"

definition fits :: "nat \<Rightarrow> add_call \<Rightarrow> bool" where
  "fits d c = (case c of (ts, emb, md) \<Rightarrow> nd_cols emb = d)"

text \<open>
  A store of dimension two after a call with a three-column array, which the index
  rejects, and a call that fits.
\<close>

definition skewed_store :: faiss_retriever where
  "skewed_store =
     run_adds 2
       [([''bad''], \<lparr> nd_dtype = Float32, nd_cols = 3, nd_rows = [[9, 9, 9]] \<rparr>, None),
        ([''good''], \<lparr> nd_dtype = Float32, nd_cols = 2, nd_rows = [[0, 0]] \<rparr>, None)]"

definition origin_query :: query where
  "origin_query = \<lparr> q_dtype = Float32, q_values = [0, 0] \<rparr>"

section \<open>analysis\_agent.py\<close>

text \<open>
  The pandas and numpy operations the routine calls are modelled by their documented
  behaviour on float64 data: label alignment when a frame is built from series,
  \<open>pct_change\<close>, \<open>dropna\<close>, \<open>corr\<close>, row selection by \<open>.loc\<close>, column selection by
  \<open>[]\<close>, broadcasting of a two-dimensional array against a frame, and the NaN-skipping
  reductions \<open>sum\<close>, \<open>std\<close> and \<open>idxmax\<close>. A series created by
  \<open>pd.Series(index=stock_list)\<close> holds float64 cells, all NaN. Every exception raised
  inside the body is caught by the outer \<open>except\<close>, which returns the empty dict.
\<close>

subsection \<open>Numbers\<close>

text \<open>
  A float64 cell is a real number, an infinity (\<open>Infinite True\<close> is \<open>+inf\<close>) or NaN.
  The arithmetic follows IEEE 754 on the special values; on numbers it is exact, so
  rounding, overflow and the sign of zero are not modelled.
\<close>

datatype fl = Num real | Infinite bool | NaN

fun fl_add :: "fl \<Rightarrow> fl \<Rightarrow> fl" where
  "fl_add (Num a) (Num b) = Num (a + b)"
| "fl_add (Num a) (Infinite s) = Infinite s"
| "fl_add (Infinite s) (Num b) = Infinite s"
| "fl_add (Infinite s) (Infinite t) = (if s = t then Infinite s else NaN)"
| "fl_add NaN _ = NaN"
| "fl_add _ NaN = NaN"

fun fl_neg :: "fl \<Rightarrow> fl" where
  "fl_neg (Num a) = Num (- a)"
| "fl_neg (Infinite s) = Infinite (\<not> s)"
| "fl_neg NaN = NaN"

definition fl_sub :: "fl \<Rightarrow> fl \<Rightarrow> fl" where
  "fl_sub a b = fl_add a (fl_neg b)"

fun fl_mul :: "fl \<Rightarrow> fl \<Rightarrow> fl" where
  "fl_mul (Num a) (Num b) = Num (a * b)"
| "fl_mul (Num a) (Infinite s) = (if a = 0 then NaN else Infinite (s = (0 < a)))"
| "fl_mul (Infinite s) (Num b) = (if b = 0 then NaN else Infinite (s = (0 < b)))"
| "fl_mul (Infinite s) (Infinite t) = Infinite (s = t)"
| "fl_mul NaN _ = NaN"
| "fl_mul _ NaN = NaN"

fun fl_div :: "fl \<Rightarrow> fl \<Rightarrow> fl" where
  "fl_div (Num a) (Num b) =
     (if b = 0 then (if a = 0 then NaN else Infinite (0 < a)) else Num (a / b))"
| "fl_div (Num a) (Infinite s) = Num 0"
| "fl_div (Infinite s) (Num b) = Infinite (s = (0 \<le> b))"
| "fl_div (Infinite s) (Infinite t) = NaN"
| "fl_div NaN _ = NaN"
| "fl_div _ NaN = NaN"

fun fl_abs :: "fl \<Rightarrow> fl" where
  "fl_abs (Num a) = Num \<bar>a\<bar>"
| "fl_abs (Infinite s) = Infinite True"
| "fl_abs NaN = NaN"

fun fl_sqrt :: "fl \<Rightarrow> fl" where
  "fl_sqrt (Num a) = (if a < 0 then NaN else Num (sqrt a))"
| "fl_sqrt (Infinite s) = (if s then Infinite True else NaN)"
| "fl_sqrt NaN = NaN"

text \<open>\<open>a < b\<close> on cells; every comparison with NaN is false.\<close>

fun fl_less :: "fl \<Rightarrow> fl \<Rightarrow> bool" where
  "fl_less (Num a) (Num b) = (a < b)"
| "fl_less (Num a) (Infinite s) = s"
| "fl_less (Infinite s) (Num b) = (\<not> s)"
| "fl_less (Infinite s) (Infinite t) = (\<not> s \<and> t)"
| "fl_less NaN _ = False"
| "fl_less _ NaN = False"

definition fl_sum :: "fl list \<Rightarrow> fl" where
  "fl_sum xs = foldl fl_add (Num 0) xs"

text \<open>\<open>sum\<close> with pandas' default \<open>skipna=True\<close>: NaN cells count as zero.\<close>

definition nansum :: "fl list \<Rightarrow> fl" where
  "nansum xs = fl_sum (filter (\<lambda>x. x \<noteq> NaN) xs)"

text \<open>
  \<open>Series.std\<close> (\<open>ddof=1\<close>, \<open>skipna=True\<close>): NaN cells are left out of the count and
  the sums; with fewer than two cells left the result is NaN.
\<close>

definition std :: "fl list \<Rightarrow> fl" where
  "std xs =
     (let vals = filter (\<lambda>x. x \<noteq> NaN) xs; count = length vals
      in if count \<le> 1 then NaN
         else let avg = fl_div (fl_sum vals) (Num (real count));
                  sqr = map (\<lambda>v. fl_mul (fl_sub avg v) (fl_sub avg v)) vals
              in fl_sqrt (fl_div (fl_sum sqr) (Num (real count - 1))))"

subsection \<open>Tables\<close>

datatype pyerr = KeyError | ValueError | TypeError

record bar =
  bar_open :: fl
  bar_high :: fl
  bar_low :: fl
  bar_close :: fl
  bar_volume :: fl

text \<open>
  The daily table of one symbol: its rows in the order of the response, each with its
  timestamp (microseconds) and its bar.
\<close>

type_synonym table = "(int \<times> bar) list"

text \<open>
  The object in the \<open>price\<close> column of a quote: the class \<open>AlphaVantageAgent\<close> of
  analysis\_agent.py stores the JSON value as it came, a string such as \<open>"150.00"\<close>
  when the provider sends strings; the class of the same name in api\_agent.py converts
  the column with \<open>pd.to_numeric\<close>.
\<close>

datatype price = PriceStr string | PriceNum fl

text \<open>
  What \<open>_get_latest_quote\<close> returns: an empty frame (also on any exception), or a frame
  of one row whose \<open>price\<close> column may be missing.
\<close>

datatype quote_frame = EmptyQuote | QuoteRow "price option"

text \<open>
  The provider and the clock: \<open>fetch_daily symbol\<close> is the outcome of
  \<open>_fetch_data("TIME_SERIES_DAILY", symbol)\<close> (\<open>None\<close> when it raises),
  \<open>get_latest_quote symbol\<close> the frame returned by \<open>_get_latest_quote\<close>, \<open>now\<close> the
  value of \<open>datetime.now()\<close>. \<open>pct_pad\<close> is the pandas default of \<open>pct_change\<close>:
  forward-filling NaN before the division (pandas before 3.0) or not.
\<close>

record market =
  fetch_daily :: "string \<Rightarrow> table option"
  get_latest_quote :: "string \<Rightarrow> quote_frame"
  now :: int
  pct_pad :: bool

definition usec_per_day :: int where
  "usec_per_day = 86400000000"

definition get_historical_data :: "market \<Rightarrow> string \<Rightarrow> int \<Rightarrow> table" where
  "get_historical_data m symbol days =
     (case fetch_daily m symbol of
        None \<Rightarrow> []
      | Some df \<Rightarrow>
          (let end_date = now m; start_date = end_date - days * usec_per_day
           in filter (\<lambda>(t, b). start_date \<le> t \<and> t \<le> end_date) df))"

text \<open>
  A frame of float columns: the row labels, the column labels and one list of cells per
  column.
\<close>

record frame =
  f_index :: "int list"
  f_columns :: "string list"
  f_data :: "fl list list"

text \<open>The allocation table: row labels, column labels and the cells row by row.\<close>

record alloc_table =
  a_index :: "string list"
  a_columns :: "string list"
  a_rows :: "fl list list"

text \<open>Keys of a dict built from a list: each key once, at its first position.\<close>

fun uniq :: "'a list \<Rightarrow> 'a list" where
  "uniq [] = []"
| "uniq (x # xs) = x # filter (\<lambda>y. y \<noteq> x) (uniq xs)"

text \<open>
  \<open>pd.DataFrame({symbol: series, ...})\<close>. When all series carry the same index the frame
  keeps it as it is. Otherwise the index is the sorted union; a series whose own index
  repeats a label cannot be reindexed (\<open>ValueError\<close>), and a label a series lacks gives
  NaN.
\<close>

definition frame_from_series :: "(string \<times> (int \<times> fl) list) list \<Rightarrow> pyerr + frame" where
  "frame_from_series cols =
     (let idxs = map (\<lambda>(name, s). map fst s) cols
      in if list_all (\<lambda>ix. ix = hd idxs) idxs then
           Inr \<lparr> f_index = (if idxs = [] then [] else hd idxs),
                 f_columns = map fst cols,
                 f_data = map (\<lambda>(name, s). map snd s) cols \<rparr>
         else if list_ex (\<lambda>ix. \<not> distinct ix) idxs then Inl ValueError
         else
           (let ix = sort (remdups (concat idxs))
            in Inr \<lparr> f_index = ix,
                     f_columns = map fst cols,
                     f_data = map (\<lambda>(name, s).
                        map (\<lambda>t. case map_of s t of None \<Rightarrow> NaN | Some v \<Rightarrow> v) ix) cols \<rparr>))"

fun ffill_from :: "fl \<Rightarrow> fl list \<Rightarrow> fl list" where
  "ffill_from seen [] = []"
| "ffill_from seen (x # xs) = (if x = NaN then seen # ffill_from seen xs else x # ffill_from x xs)"

definition ffill :: "fl list \<Rightarrow> fl list" where
  "ffill xs = ffill_from NaN xs"

definition shift1 :: "fl list \<Rightarrow> fl list" where
  "shift1 xs = (if xs = [] then [] else NaN # butlast xs)"

definition pct_change_col :: "bool \<Rightarrow> fl list \<Rightarrow> fl list" where
  "pct_change_col pad xs =
     (let ys = (if pad then ffill xs else xs)
      in map (\<lambda>(cur, prev). fl_sub (fl_div cur prev) (Num 1)) (zip ys (shift1 ys)))"

definition pct_change :: "bool \<Rightarrow> frame \<Rightarrow> frame" where
  "pct_change pad f = f\<lparr> f_data := map (pct_change_col pad) (f_data f) \<rparr>"

definition dropna :: "frame \<Rightarrow> frame" where
  "dropna f =
     (let keep = filter (\<lambda>i. list_all (\<lambda>c. c ! i \<noteq> NaN) (f_data f)) [0..<length (f_index f)]
      in \<lparr> f_index = map (\<lambda>i. f_index f ! i) keep,
           f_columns = f_columns f,
           f_data = map (\<lambda>c. map (\<lambda>i. c ! i) keep) (f_data f) \<rparr>)"

text \<open>
  Pearson correlation as \<open>DataFrame.corr\<close> computes it (\<open>min_periods=1\<close>): over the
  rows in which both cells are finite; NaN when there is no such row or when a sum of
  squared deviations is zero.
\<close>

fun finite_pairs :: "fl list \<Rightarrow> fl list \<Rightarrow> (real \<times> real) list" where
  "finite_pairs (Num a # xs) (Num b # ys) = (a, b) # finite_pairs xs ys"
| "finite_pairs (x # xs) (y # ys) = finite_pairs xs ys"
| "finite_pairs _ _ = []"

definition mean :: "real list \<Rightarrow> real" where
  "mean xs = sum_list xs / real (length xs)"

definition pearson :: "fl list \<Rightarrow> fl list \<Rightarrow> fl" where
  "pearson xs ys =
     (let ps = finite_pairs xs ys; vx = map fst ps; vy = map snd ps
      in if ps = [] then NaN
         else let mx = mean vx; my = mean vy;
                  covxy = sum_list (map (\<lambda>(x, y). (x - mx) * (y - my)) ps);
                  ssqdm_x = sum_list (map (\<lambda>x. (x - mx) * (x - mx)) vx);
                  ssqdm_y = sum_list (map (\<lambda>y. (y - my) * (y - my)) vy);
                  divisor = sqrt (ssqdm_x * ssqdm_y)
              in if divisor \<noteq> 0 then Num (covxy / divisor) else NaN)"

text \<open>
  The entry of the correlation matrix for columns \<open>i\<close> and \<open>j\<close>: the Pearson
  correlation of the two columns.
\<close>

definition corr_entry :: "fl list list \<Rightarrow> nat \<Rightarrow> nat \<Rightarrow> fl" where
  "corr_entry cols i j = pearson (cols ! i) (cols ! j)"

definition corr :: "frame \<Rightarrow> fl list list" where
  "corr f = map (\<lambda>i. map (\<lambda>j. corr_entry (f_data f) i j) [0..<length (f_data f)])
     [0..<length (f_data f)]"

definition corr_to_dict :: "frame \<Rightarrow> (string \<times> (string \<times> fl) list) list" where
  "corr_to_dict f =
     map (\<lambda>(c, col). (c, zip (f_columns f) col)) (zip (f_columns f) (corr f))"

text \<open>
  \<open>allocation_data.loc[labels]\<close>: the rows with these labels, in the order asked; a
  label that is not in the index is a \<open>KeyError\<close>.
\<close>

definition loc_rows :: "alloc_table \<Rightarrow> string list \<Rightarrow> pyerr + fl list list" where
  "loc_rows a labels =
     (if list_ex (\<lambda>l. l \<notin> set (a_index a)) labels then Inl KeyError
      else Inr (concat (map (\<lambda>l. map snd (filter (\<lambda>(k, row). k = l) (zip (a_index a) (a_rows a))))
                  labels)))"

text \<open>
  \<open>allocation_data[labels]\<close>: the columns with these labels; a label that is not a column
  is a \<open>KeyError\<close>. The result is given column by column.
\<close>

definition select_columns :: "alloc_table \<Rightarrow> string list \<Rightarrow> pyerr + fl list list" where
  "select_columns a labels =
     (if list_ex (\<lambda>l. l \<notin> set (a_columns a)) labels then Inl KeyError
      else Inr (concat (map (\<lambda>l. map (\<lambda>j. map (\<lambda>row. row ! j) (a_rows a))
                  (filter (\<lambda>j. a_columns a ! j = l) [0..<length (a_columns a)])) labels)))"

definition frame_rows :: "frame \<Rightarrow> fl list list" where
  "frame_rows f = map (\<lambda>i. map (\<lambda>c. c ! i) (f_data f)) [0..<length (f_index f)]"

text \<open>
  \<open>frame * array\<close> for a two-dimensional array of shape \<open>(r, m)\<close> against a frame of
  shape \<open>(t, n)\<close>: the same shape multiplies cell by cell, \<open>(t, 1)\<close> is broadcast over
  the columns, \<open>(1, n)\<close> over the rows, anything else is a \<open>ValueError\<close>. The result is
  given row by row.
\<close>

definition mul_frame_array :: "frame \<Rightarrow> nat \<Rightarrow> fl list list \<Rightarrow> pyerr + fl list list" where
  "mul_frame_array f m arr =
     (let t = length (f_index f); n = length (f_columns f); r = length arr; rows = frame_rows f
      in if r = t \<and> m = n then
           Inr (map (\<lambda>(row, ws). map (\<lambda>(x, w). fl_mul x w) (zip row ws)) (zip rows arr))
         else if r = t \<and> m = 1 then
           Inr (map (\<lambda>(row, ws). map (\<lambda>x. fl_mul x (ws ! 0)) row) (zip rows arr))
         else if m = n \<and> r = 1 then
           Inr (map (\<lambda>row. map (\<lambda>(x, w). fl_mul x w) (zip row (arr ! 0))) rows)
         else Inl ValueError)"

text \<open>\<open>table.sum().sum()\<close>: the sum of the column sums, both skipping NaN.\<close>

definition sum_sum :: "fl list list \<Rightarrow> fl" where
  "sum_sum columns = nansum (map nansum columns)"

definition alloc_columns :: "alloc_table \<Rightarrow> fl list list" where
  "alloc_columns a = map (\<lambda>j. map (\<lambda>row. row ! j) (a_rows a)) [0..<length (a_columns a)]"

definition alloc_shift1 :: "alloc_table \<Rightarrow> alloc_table" where
  "alloc_shift1 a =
     a\<lparr> a_rows := (if a_rows a = [] then []
                    else map (\<lambda>_. NaN) (a_columns a) # butlast (a_rows a)) \<rparr>"

definition alloc_empty :: "alloc_table \<Rightarrow> bool" where
  "alloc_empty a = (a_index a = [] \<or> a_columns a = [])"

subsection \<open>analyze\_risk\_exposure\<close>

text \<open>
  The result dict. \<open>price_change[largest_change_stock]\<close> is a scalar when the label
  occurs once in \<open>stock_list\<close> and a series of equal cells when the caller listed the
  symbol several times, so \<open>largest_change_value\<close> is the list of the cells under that
  label.
\<close>

record analysis =
  correlation_matrix :: "(string \<times> (string \<times> fl) list) list"
  portfolio_risk :: fl
  largest_change_stock :: string
  largest_change_value :: "fl list"
  allocation_percentage :: fl
  previous_day_allocation_percentage :: fl

datatype result = ErrorRecord string | EmptyDict | Analysis analysis

text \<open>
  The first loop runs over the list object it was given; each symbol without data
  rebinds \<open>stock_list\<close> to a copy without that symbol.
\<close>

fun fetch_loop ::
  "market \<Rightarrow> string list \<Rightarrow> (string \<rightharpoonup> table) \<times> string list \<Rightarrow> (string \<rightharpoonup> table) \<times> string list" where
  "fetch_loop m [] st = st"
| "fetch_loop m (symbol # rest) (historical_data, stock_list) =
     (let df = get_historical_data m symbol 30;
          historical_data' = historical_data(symbol \<mapsto> df)
      in if df = [] then fetch_loop m rest (historical_data', filter (\<lambda>s. s \<noteq> symbol) stock_list)
         else fetch_loop m rest (historical_data', stock_list))"

definition retained :: "market \<Rightarrow> string list \<Rightarrow> string list" where
  "retained m stock_list = snd (fetch_loop m stock_list (Map.empty, stock_list))"

text \<open>
  \<open>data\<close>: one column of closes per key of the dict comprehension over the retained
  symbols.
\<close>

definition close_series ::
  "(string \<rightharpoonup> table) \<Rightarrow> string list \<Rightarrow> pyerr + (string \<times> (int \<times> fl) list) list" where
  "close_series historical_data stock_list =
     (if list_ex (\<lambda>s. historical_data s = None) (uniq stock_list) then Inl KeyError
      else Inr (map (\<lambda>s. (s, map (\<lambda>(t, b). (t, bar_close b)) (the (historical_data s))))
                  (uniq stock_list)))"

definition close_frame :: "(string \<rightharpoonup> table) \<Rightarrow> string list \<Rightarrow> pyerr + frame" where
  "close_frame historical_data stock_list =
     (case close_series historical_data stock_list of
        Inl e \<Rightarrow> Inl e
      | Inr cols \<Rightarrow> frame_from_series cols)"

text \<open>
  The first price loop: \<open>latest_prices[symbol]\<close> is the first cell of the \<open>price\<close>
  column, or \<open>None\<close> for an empty quote frame; a frame without that column raises
  \<open>KeyError\<close>.
\<close>

fun latest_prices :: "market \<Rightarrow> string list \<Rightarrow> pyerr + (string \<times> price option) list" where
  "latest_prices m [] = Inr []"
| "latest_prices m (symbol # rest) =
     (case get_latest_quote m symbol of
        EmptyQuote \<Rightarrow>
          (case latest_prices m rest of Inl e \<Rightarrow> Inl e | Inr ps \<Rightarrow> Inr ((symbol, None) # ps))
      | QuoteRow None \<Rightarrow> Inl KeyError
      | QuoteRow (Some p) \<Rightarrow>
          (case latest_prices m rest of Inl e \<Rightarrow> Inl e | Inr ps \<Rightarrow> Inr ((symbol, Some p) # ps)))"

text \<open>
  \<open>previous_prices\<close>: the last row of \<open>data\<close>, labelled by its columns (a float cell is
  never \<open>None\<close>), or a row of \<open>None\<close> labelled by \<open>stock_list\<close> when \<open>data\<close> has no
  rows.
\<close>

definition previous_prices :: "frame \<Rightarrow> string list \<Rightarrow> (string \<times> fl option) list" where
  "previous_prices data stock_list =
     (if 0 < length (f_index data)
      then map (\<lambda>(c, col). (c, Some (last col))) (zip (f_columns data) (f_data data))
      else map (\<lambda>s. (s, None)) stock_list)"

definition series_get :: "(string \<times> 'a) list \<Rightarrow> string \<Rightarrow> pyerr + 'a" where
  "series_get s label = (case map_of s label of None \<Rightarrow> Inl KeyError | Some v \<Rightarrow> Inr v)"

text \<open>
  The second price loop. The right operand of \<open>and\<close> is looked up only when the latest
  price is not \<open>None\<close>; a string minus a float is a \<open>TypeError\<close>; assigning \<open>None\<close> to a
  float cell stores NaN.
\<close>

definition price_change_of ::
  "(string \<times> price option) list \<Rightarrow> (string \<times> fl option) list \<Rightarrow> string \<Rightarrow> pyerr + fl" where
  "price_change_of latest previous symbol =
     (case series_get latest symbol of
        Inl e \<Rightarrow> Inl e
      | Inr None \<Rightarrow> Inr NaN
      | Inr (Some p) \<Rightarrow>
          (case series_get previous symbol of
             Inl e \<Rightarrow> Inl e
           | Inr None \<Rightarrow> Inr NaN
           | Inr (Some prev) \<Rightarrow>
               (case p of
                  PriceStr s \<Rightarrow> Inl TypeError
                | PriceNum x \<Rightarrow> Inr (fl_sub x prev))))"

fun price_changes ::
  "(string \<times> price option) list \<Rightarrow> (string \<times> fl option) list \<Rightarrow> string list
     \<Rightarrow> pyerr + (string \<times> fl) list" where
  "price_changes latest previous [] = Inr []"
| "price_changes latest previous (symbol # rest) =
     (case price_change_of latest previous symbol of
        Inl e \<Rightarrow> Inl e
      | Inr v \<Rightarrow>
          (case price_changes latest previous rest of
             Inl e \<Rightarrow> Inl e
           | Inr vs \<Rightarrow> Inr ((symbol, v) # vs)))"

text \<open>
  \<open>Series.idxmax\<close>: the label of the first largest cell, NaN cells skipped; \<open>None\<close> when
  every cell is NaN.
\<close>

fun idxmax_from :: "(string \<times> fl) option \<Rightarrow> (string \<times> fl) list \<Rightarrow> string option" where
  "idxmax_from best [] = map_option fst best"
| "idxmax_from best ((l, v) # rest) =
     (if v = NaN then idxmax_from best rest
      else case best of
          None \<Rightarrow> idxmax_from (Some (l, v)) rest
        | Some (bl, bv) \<Rightarrow>
            if fl_less bv v then idxmax_from (Some (l, v)) rest else idxmax_from best rest)"

definition idxmax :: "(string \<times> fl) list \<Rightarrow> string option" where
  "idxmax s = idxmax_from None s"

definition risk_body ::
  "market \<Rightarrow> (string \<rightharpoonup> table) \<Rightarrow> string list \<Rightarrow> alloc_table \<Rightarrow> pyerr + analysis" where
  "risk_body m historical_data stock_list allocation_data =
     (case close_frame historical_data stock_list of Inl e \<Rightarrow> Inl e | Inr data \<Rightarrow>
      let returns = dropna (pct_change (pct_pad m) data) in
      case loc_rows allocation_data stock_list of Inl e \<Rightarrow> Inl e | Inr weights \<Rightarrow>
      case mul_frame_array returns (length (a_columns allocation_data)) weights of
        Inl e \<Rightarrow> Inl e | Inr weighted \<Rightarrow>
      let portfolio_returns = map nansum weighted in
      case latest_prices m stock_list of Inl e \<Rightarrow> Inl e | Inr latest \<Rightarrow>
      case price_changes latest (previous_prices data stock_list) stock_list of
        Inl e \<Rightarrow> Inl e | Inr price_change \<Rightarrow>
      case idxmax (map (\<lambda>(l, v). (l, fl_abs v)) price_change) of
        None \<Rightarrow> Inl KeyError | Some stock \<Rightarrow>
      let total_allocation = sum_sum (alloc_columns allocation_data) in
      case select_columns allocation_data stock_list of Inl e \<Rightarrow> Inl e | Inr cs \<Rightarrow>
      let allocation_pct = fl_mul (fl_div (sum_sum cs) total_allocation) (Num 100) in
      case select_columns (alloc_shift1 allocation_data) stock_list of
        Inl e \<Rightarrow> Inl e | Inr ps \<Rightarrow>
      Inr \<lparr> correlation_matrix = corr_to_dict returns,
            portfolio_risk = std portfolio_returns,
            largest_change_stock = stock,
            largest_change_value = map snd (filter (\<lambda>(l, v). l = stock) price_change),
            allocation_percentage = allocation_pct,
            previous_day_allocation_percentage =
              (if \<not> alloc_empty allocation_data
               then fl_mul (fl_div (sum_sum ps) total_allocation) (Num 100)
               else allocation_pct) \<rparr>)"

definition analyze_risk_exposure :: "market \<Rightarrow> string list \<Rightarrow> alloc_table \<Rightarrow> result" where
  "analyze_risk_exposure m stock_list allocation_data =
     (case fetch_loop m stock_list (Map.empty, stock_list) of
        (historical_data, stock_list') \<Rightarrow>
          if stock_list' = [] then
            ErrorRecord ''No data available for any of the provided stocks.''
          else (case risk_body m historical_data stock_list' allocation_data of
                  Inl e \<Rightarrow> EmptyDict
                | Inr r \<Rightarrow> Analysis r))"

text \<open>The values of \<open>data\<close> and \<open>returns\<close> in a call of \<open>analyze_risk_exposure\<close>.\<close>

definition data_of :: "market \<Rightarrow> string list \<Rightarrow> pyerr + frame" where
  "data_of m stock_list =
     (case fetch_loop m stock_list (Map.empty, stock_list) of
        (historical_data, stock_list') \<Rightarrow> close_frame historical_data stock_list')"


text \<open>
  Concrete inputs: the stock list and the allocation table of the module's own example,
  and a provider that has three daily bars for every symbol and quotes prices as strings.
\<close>

definition demo_bar :: "real \<Rightarrow> bar" where
  "demo_bar c = \<lparr> bar_open = Num c, bar_high = Num c, bar_low = Num c, bar_close = Num c,
     bar_volume = Num 1000 \<rparr>"

definition main_stocks :: "string list" where
  "main_stocks = [''AAPL'', ''TSMC'', ''Samsung'']"

definition main_alloc :: alloc_table where
  "main_alloc =
     \<lparr> a_index = [''portfolio_allocation''],
       a_columns = [''AAPL'', ''TSMC'', ''Samsung'', ''Other1'', ''Other2'', ''Other3''],
       a_rows = [[Num (1/10), Num (5/100), Num (7/100), Num (2/10), Num (3/10), Num (28/100)]] \<rparr>"

definition main_market :: market where
  "main_market =
     \<lparr> fetch_daily = (\<lambda>s. Some [(3 * usec_per_day, demo_bar 110), (2 * usec_per_day, demo_bar 100),
                                 (1 * usec_per_day, demo_bar 80)]),
       get_latest_quote = (\<lambda>s. QuoteRow (Some (PriceStr ''150.00''))),
       now = 4 * usec_per_day + 1,
       pct_pad = True \<rparr>"

definition dark_market :: market where
  "dark_market = main_market\<lparr> fetch_daily := (\<lambda>s. if s = ''AAPL'' then None else Some []) \<rparr>"

text \<open>
  A table of one row and one column, both labelled by the symbol, which passes the weight
  lookup, and the same provider quoting prices as numbers.
\<close>

definition solo_alloc :: alloc_table where
  "solo_alloc = \<lparr> a_index = [''AAPL''], a_columns = [''AAPL''], a_rows = [[Num 1]] \<rparr>"

definition numeric_market :: market where
  "numeric_market = main_market\<lparr> get_latest_quote := (\<lambda>s. QuoteRow (Some (PriceNum (Num 150)))) \<rparr>"

















section \<open>Scraping: one result per URL\<close>











section \<open>Retrieval store: insertion checks and nearest-neighbour search\<close>

lemma add_texts_error_unchanged:
  "add_texts ts emb md r = (Inl e, r') \<Longrightarrow> r' = r"
  by (auto simp: add_texts_def split: if_splits option.splits)

lemma store_ok_init: "store_ok (faiss_init d)"
  by (simp add: store_ok_def faiss_init_def)

lemma store_ok_add:
  assumes "store_ok r" "faiss_add_texts ts emb md r = (Inr (), r')"
  shows "store_ok r'"
  using assms
  by (auto simp: store_ok_def faiss_add_texts_def add_texts_def index_add_def shape0_def
      split: if_splits option.splits prod.splits sum.splits)

lemma get_all_nth:
  assumes "length (texts r) = n" "length (embeddings r) = n" "length (metadata r) = n" "i < n"
  shows "get_all r ! i = \<lparr> entry_text = texts r ! i, entry_embedding = embeddings r ! i,
      entry_metadata = metadata r ! i \<rparr>"
  using assms by (simp add: get_all_def)

lemma length_get_all:
  assumes "length (texts r) = n" "length (embeddings r) = n" "length (metadata r) = n"
  shows "length (get_all r) = n"
  using assms by (simp add: get_all_def)

lemma entry_at_ok:
  assumes "length (texts r) = n" "length (embeddings r) = n" "length (metadata r) = n" "i < n"
  shows "entry_at r (int i) = Inr (get_all r ! i)"
  using assms by (simp add: entry_at_def py_nth_def get_all_nth)

lemma collect_ids:
  assumes "length (texts r) = n" "length (embeddings r) = n" "length (metadata r) = n"
    and "\<forall>i \<in> set ids. i < n"
  shows "collect r (map int ids @ replicate p (- 1)) = Inr (map (\<lambda>i. get_all r ! i) ids)"
  using assms(4)
proof (induction ids)
  case Nil
  show ?case by (induction p) simp_all
next
  case (Cons i ids)
  then have "i < n" by simp
  then have "entry_at r (int i) = Inr (get_all r ! i)"
    using assms(1-3) by (rule entry_at_ok[rotated 3])
  moreover have "int i \<noteq> - 1" by simp
  ultimately show ?case using Cons by simp
qed

lemma knn_props:
  "distinct (knn q idx k)"
  "set (knn q idx k) \<subseteq> {..<length idx}"
  "length (knn q idx k) = min k (length idx)"
  "sorted (map (\<lambda>i. l2_sq q (idx ! i)) (knn q idx k))"
proof -
  let ?s = "sort_key (\<lambda>i. l2_sq q (idx ! i)) [0..<length idx]"
  show "distinct (knn q idx k)" by (simp add: knn_def distinct_take)
  have "set (take k ?s) \<subseteq> set ?s" by (rule set_take_subset)
  then show "set (knn q idx k) \<subseteq> {..<length idx}" by (auto simp: knn_def)
  show "length (knn q idx k) = min k (length idx)" by (simp add: knn_def)
  have "sorted (map (\<lambda>i. l2_sq q (idx ! i)) ?s)" by simp
  then have "sorted (take k (map (\<lambda>i. l2_sq q (idx ! i)) ?s))" by (rule sorted_wrt_take)
  then show "sorted (map (\<lambda>i. l2_sq q (idx ! i)) (knn q idx k))" by (simp add: knn_def take_map)
qed

lemma knn_nearest:
  assumes "j < length idx" "j \<notin> set (knn q idx k)" "i \<in> set (knn q idx k)"
  shows "l2_sq q (idx ! i) \<le> l2_sq q (idx ! j)"
proof -
  let ?f = "\<lambda>i. l2_sq q (idx ! i)"
  let ?s = "sort_key ?f [0..<length idx]"
  have s: "?s = take k ?s @ drop k ?s" by simp
  have "j \<in> set ?s" using assms(1) by simp
  then have "j \<in> set (take k ?s) \<union> set (drop k ?s)" by (metis s set_append)
  then have j: "j \<in> set (drop k ?s)" using assms(2) by (simp add: knn_def)
  have "sorted (map ?f ?s)" by simp
  then have "sorted (map ?f (take k ?s) @ map ?f (drop k ?s))"
    by (metis s map_append)
  then have "\<forall>x \<in> set (map ?f (take k ?s)). \<forall>y \<in> set (map ?f (drop k ?s)). x \<le> y"
    unfolding sorted_append by blast
  then show ?thesis using j assms(3) by (simp add: knn_def)
qed

lemma knn_all:
  assumes "length idx \<le> k"
  shows "mset (knn q idx k) = mset [0..<length idx]"
  using assms by (simp add: knn_def)

lemma demo_store_eq:
  "demo_store = \<lparr> texts = [''a'', ''b'', ''c''], embeddings = [[0, 0], [3, 4], [1, 0]],
     metadata = [[], [], []], faiss_index = [[0, 0], [3, 4], [1, 0]], embedding_dim = 2 \<rparr>"
  by (simp add: demo_store_def faiss_add_texts_def add_texts_def demo_array_def faiss_init_def
      shape0_def index_add_def)

lemma faiss_retrieve_ok:
  assumes ok: "store_ok r" and ne: "faiss_index r \<noteq> []"
    and dt: "q_dtype q = Float32" and dim: "length (q_values q) = embedding_dim r"
    and k: "0 < top_k"
  shows "faiss_retrieve q top_k r =
     Inr (map (\<lambda>i. get_all r ! i) (knn (q_values q) (faiss_index r) (nat top_k)))"
proof -
  let ?n = "length (embeddings r)"
  have len: "length (texts r) = ?n" "length (embeddings r) = ?n" "length (metadata r) = ?n"
    using ok by (simp_all add: store_ok_def)
  have idx: "faiss_index r = embeddings r" using ok by (simp add: store_ok_def)
  have "\<forall>i \<in> set (knn (q_values q) (faiss_index r) (nat top_k)). i < ?n"
    using knn_props(2)[of "q_values q" "faiss_index r" "nat top_k"] idx by auto
  then have "collect r (map int (knn (q_values q) (faiss_index r) (nat top_k))
        @ replicate (nat top_k - length (faiss_index r)) (- 1))
      = Inr (map (\<lambda>i. get_all r ! i) (knn (q_values q) (faiss_index r) (nat top_k)))"
    by (rule collect_ids[OF len])
  then show ?thesis
    using ne dt dim k by (simp add: faiss_retrieve_def index_search_def)
qed

text \<open>
  Claim C7. Both \<open>add_texts\<close> methods raise when the number of texts differs from the
  number of embedding rows and when a non-empty metadata list has another length than
  the texts; the FAISS store also raises when the embeddings are not float32. In each of
  these cases the store is returned as it was.
\<close>

theorem add_texts_rejects_mismatch:
  "(length ts \<noteq> shape0 emb \<longrightarrow>
      add_texts ts emb md r = (Inl (TextsEmbeddingsMismatch (length ts) (shape0 emb)), r) \<and>
      (\<exists>e. faiss_add_texts ts emb md fr = (Inl e, fr))) \<and>
   (md = Some m \<and> m \<noteq> [] \<and> length m \<noteq> length ts \<longrightarrow>
      (\<exists>e. add_texts ts emb md r = (Inl e, r)) \<and>
      (\<exists>e. faiss_add_texts ts emb md fr = (Inl e, fr))) \<and>
   (nd_dtype emb \<noteq> Float32 \<longrightarrow> faiss_add_texts ts emb md fr = (Inl EmbeddingsNotFloat32, fr))"
  by (auto simp: add_texts_def faiss_add_texts_def)

theorem add_texts_rejects_mismatch_witness:
  "length [''x'', ''y''] \<noteq> shape0 demo_array \<and>
   add_texts [''x'', ''y''] demo_array None base_init
     = (Inl (TextsEmbeddingsMismatch 2 3), base_init) \<and>
   (\<exists>e. faiss_add_texts [''x'', ''y''] demo_array None demo_store = (Inl e, demo_store)) \<and>
   (\<exists>e. add_texts [''a'', ''b'', ''c''] demo_array (Some [[]]) base_init = (Inl e, base_init)) \<and>
   faiss_add_texts [''a'', ''b'', ''c''] (demo_array\<lparr> nd_dtype := Float64 \<rparr>) None demo_store
     = (Inl EmbeddingsNotFloat32, demo_store)"
proof -
  have a: "length [''x'', ''y''] \<noteq> shape0 demo_array"
    by (simp add: shape0_def demo_array_def)
  have s: "shape0 demo_array = 3" by (simp add: shape0_def demo_array_def)
  have b: "Some [[]] = Some [[]] \<and> [[]] \<noteq> ([] :: metadata list)
      \<and> length ([[]] :: metadata list) \<noteq> length [''a'', ''b'', ''c'']"
    by simp
  have c: "nd_dtype (demo_array\<lparr> nd_dtype := Float64 \<rparr>) \<noteq> Float32" by simp
  show ?thesis
    using add_texts_rejects_mismatch
      [of "[''x'', ''y'']" demo_array None base_init demo_store "[]"]
      add_texts_rejects_mismatch
      [of "[''a'', ''b'', ''c'']" demo_array "Some [[]]" base_init demo_store "[[]]"]
      add_texts_rejects_mismatch
      [of "[''a'', ''b'', ''c'']" "demo_array\<lparr> nd_dtype := Float64 \<rparr>" None base_init
        demo_store "[]"]
      a b c s
    by simp
qed

lemma store_ok_step:
  assumes "store_ok r" and "nd_cols emb = embedding_dim r"
  shows "store_ok (snd (faiss_add_texts ts emb md r)) \<and>
     embedding_dim (snd (faiss_add_texts ts emb md r)) = embedding_dim r"
  using assms
  by (auto simp: store_ok_def faiss_add_texts_def add_texts_def index_add_def shape0_def
      split: if_splits option.splits)

lemma store_ok_run_adds:
  assumes "list_all (fits d) calls"
  shows "store_ok (run_adds d calls) \<and> embedding_dim (run_adds d calls) = d"
  using assms
proof (induction calls rule: rev_induct)
  case Nil
  show ?case by (simp add: run_adds_def store_ok_def faiss_init_def)
next
  case (snoc c calls)
  obtain ts emb md where c: "c = (ts, emb, md)" by (cases c)
  from snoc.prems have f: "list_all (fits d) calls" and "fits d c" by simp_all
  then have e: "nd_cols emb = d" by (simp add: c fits_def)
  from snoc.IH [OF f] have ok: "store_ok (run_adds d calls)"
    and dim: "embedding_dim (run_adds d calls) = d" by simp_all
  have "run_adds d (calls @ [c]) = snd (faiss_add_texts ts emb md (run_adds d calls))"
    by (simp add: run_adds_def c)
  then show ?case using store_ok_step [of "run_adds d calls" emb ts md] ok dim e by simp
qed

lemma collect_length: "collect r ids = Inr res \<Longrightarrow> length res \<le> length ids"
proof (induction ids arbitrary: res)
  case Nil
  then show ?case by simp
next
  case (Cons i ids)
  show ?case
  proof (cases "i = - 1")
    case True
    with Cons show ?thesis by (auto intro: le_SucI)
  next
    case False
    with Cons.prems obtain x xs where "collect r ids = Inr xs" "res = x # xs"
      by (auto split: sum.splits)
    with Cons.IH show ?thesis by auto
  qed
qed

lemma faiss_retrieve_length:
  assumes "faiss_retrieve q top_k r = Inr res"
  shows "int (length res) \<le> top_k"
proof -
  let ?n = "length (faiss_index r)"
  let ?ids = "map int (knn (q_values q) (faiss_index r) (nat top_k))
      @ replicate (nat top_k - ?n) (- 1)"
  from assms have k: "0 < top_k" and c: "collect r ?ids = Inr res"
    by (auto simp: faiss_retrieve_def index_search_def split: if_splits)
  have "length ?ids = nat top_k"
    using knn_props(3) [of "q_values q" "faiss_index r" "nat top_k"] by simp
  with collect_length [OF c] have "length res \<le> nat top_k" by simp
  with k show ?thesis by simp
qed

lemma skewed_store_eq:
  "skewed_store = \<lparr> texts = [''bad'', ''good''], embeddings = [[9, 9, 9], [0, 0]],
     metadata = [[], []], faiss_index = [[0, 0]], embedding_dim = 2 \<rparr>"
  by (simp add: skewed_store_def run_adds_def faiss_add_texts_def add_texts_def faiss_init_def
      shape0_def index_add_def)

lemma collect_padding: "collect r (replicate p (- 1)) = Inr []"
  by (induction p) simp_all

lemma skewed_retrieve:
  "0 < k \<Longrightarrow> faiss_retrieve origin_query k skewed_store
     = Inr [\<lparr> entry_text = ''bad'', entry_embedding = [9, 9, 9], entry_metadata = [] \<rparr>]"
  by (simp add: skewed_store_eq faiss_retrieve_def origin_query_def index_search_def knn_def
      take_Cons' entry_at_def py_nth_def collect_padding)

lemma demo_knn: "knn [1, 1] [[0, 0], [3, 4], [1, 0]] 2 = [2, 0]"
  by (simp add: knn_def l2_sq_def upt_rec)

lemma demo_get_all:
  "get_all demo_store =
     [\<lparr> entry_text = ''a'', entry_embedding = [0, 0], entry_metadata = [] \<rparr>,
      \<lparr> entry_text = ''b'', entry_embedding = [3, 4], entry_metadata = [] \<rparr>,
      \<lparr> entry_text = ''c'', entry_embedding = [1, 0], entry_metadata = [] \<rparr>]"
  by (simp add: demo_store_eq get_all_def)

lemma demo_store_run:
  "demo_store = run_adds 2 [([''a'', ''b'', ''c''], demo_array, None)]"
  by (simp add: demo_store_def run_adds_def)

lemma demo_fits: "fits 2 ([''a'', ''b'', ''c''], demo_array, None)"
  by (simp add: fits_def demo_array_def)

text \<open>
  Claim C8, as stated, fails in four ways. On the store of three vectors a float64 query
  is answered by the dtype error, a float32 query of three components and a query with
  \<open>top_k = 0\<close> by the assertion of the index search. And on the store left by a rejected
  insertion followed by an accepted one, the query at the origin gets the entry
  \<open>bad\<close>, which was never indexed and lies at squared distance 162, while the stored
  entry \<open>good\<close> lies at distance 0.
\<close>

theorem faiss_retrieve_counterexample:
  "faiss_index demo_store \<noteq> [] \<and>
   faiss_retrieve (demo_query\<lparr> q_dtype := Float64 \<rparr>) 2 demo_store = Inl QueryNotFloat32 \<and>
   faiss_retrieve (demo_query\<lparr> q_values := [1, 1, 1] \<rparr>) 2 demo_store = Inl FaissAssertion \<and>
   faiss_retrieve demo_query 0 demo_store = Inl FaissAssertion \<and>
   faiss_index skewed_store \<noteq> [] \<and>
   faiss_retrieve origin_query 1 skewed_store
     = Inr [\<lparr> entry_text = ''bad'', entry_embedding = [9, 9, 9], entry_metadata = [] \<rparr>] \<and>
   get_all skewed_store
     = [\<lparr> entry_text = ''bad'', entry_embedding = [9, 9, 9], entry_metadata = [] \<rparr>,
        \<lparr> entry_text = ''good'', entry_embedding = [0, 0], entry_metadata = [] \<rparr>] \<and>
   l2_sq (q_values origin_query) [0, 0] = 0 \<and>
   l2_sq (q_values origin_query) [9, 9, 9] = 162"
proof -
  have a: "faiss_index demo_store \<noteq> []" "faiss_index skewed_store \<noteq> []"
    by (simp_all add: demo_store_eq skewed_store_eq)
  have b: "faiss_retrieve (demo_query\<lparr> q_dtype := Float64 \<rparr>) 2 demo_store = Inl QueryNotFloat32"
    "faiss_retrieve (demo_query\<lparr> q_values := [1, 1, 1] \<rparr>) 2 demo_store = Inl FaissAssertion"
    "faiss_retrieve demo_query 0 demo_store = Inl FaissAssertion"
    by (simp_all add: demo_store_eq faiss_retrieve_def demo_query_def index_search_def)
  have c: "faiss_retrieve origin_query 1 skewed_store
      = Inr [\<lparr> entry_text = ''bad'', entry_embedding = [9, 9, 9], entry_metadata = [] \<rparr>]"
    by (rule skewed_retrieve) simp
  have d: "get_all skewed_store
     = [\<lparr> entry_text = ''bad'', entry_embedding = [9, 9, 9], entry_metadata = [] \<rparr>,
        \<lparr> entry_text = ''good'', entry_embedding = [0, 0], entry_metadata = [] \<rparr>]"
    by (simp add: skewed_store_eq get_all_def)
  have e: "l2_sq (q_values origin_query) [0, 0] = 0"
    "l2_sq (q_values origin_query) [9, 9, 9] = 162"
    by (simp_all add: l2_sq_def origin_query_def)
  show ?thesis by (intro conjI a b c d e)
qed

text \<open>
  Claim C8, amended. Querying an empty index is the explicit error, for every query and
  every store. On a non-empty store built from a new retriever of dimension \<open>d\<close> by
  \<open>add_texts\<close> calls whose arrays all have \<open>d\<close> columns: a query that is not float32
  raises the dtype error; a float32 query of another length than \<open>d\<close>, or with
  \<open>top_k \<le> 0\<close>, fails in the index search; and a float32 query of length \<open>d\<close> with
  \<open>top_k \<ge> 1\<close> returns the stored entries at the \<open>min top_k n\<close> positions nearest to
  the query in squared L2 distance: distinct positions, by increasing distance, and no
  stored entry left out is nearer than one returned.
\<close>

theorem faiss_retrieve_nearest:
  "(faiss_index r = [] \<longrightarrow> faiss_retrieve q top_k r = Inl IndexEmpty) \<and>
   (list_all (fits d) calls \<and> faiss_index (run_adds d calls) \<noteq> [] \<longrightarrow>
      (q_dtype q \<noteq> Float32 \<longrightarrow>
         faiss_retrieve q top_k (run_adds d calls) = Inl QueryNotFloat32) \<and>
      (q_dtype q = Float32 \<and> (length (q_values q) \<noteq> d \<or> top_k \<le> 0) \<longrightarrow>
         faiss_retrieve q top_k (run_adds d calls) = Inl FaissAssertion) \<and>
      (q_dtype q = Float32 \<and> length (q_values q) = d \<and> 0 < top_k \<longrightarrow>
         faiss_retrieve q top_k (run_adds d calls)
           = Inr (map (\<lambda>i. get_all (run_adds d calls) ! i)
               (knn (q_values q) (embeddings (run_adds d calls)) (nat top_k))) \<and>
         distinct (knn (q_values q) (embeddings (run_adds d calls)) (nat top_k)) \<and>
         length (knn (q_values q) (embeddings (run_adds d calls)) (nat top_k))
           = min (nat top_k) (length (embeddings (run_adds d calls))) \<and>
         sorted (map (\<lambda>i. l2_sq (q_values q) (embeddings (run_adds d calls) ! i))
           (knn (q_values q) (embeddings (run_adds d calls)) (nat top_k))) \<and>
         (\<forall>i \<in> set (knn (q_values q) (embeddings (run_adds d calls)) (nat top_k)).
            i < length (get_all (run_adds d calls)) \<and>
            (\<forall>j < length (embeddings (run_adds d calls)).
               j \<notin> set (knn (q_values q) (embeddings (run_adds d calls)) (nat top_k)) \<longrightarrow>
               l2_sq (q_values q) (embeddings (run_adds d calls) ! i)
                 \<le> l2_sq (q_values q) (embeddings (run_adds d calls) ! j)))))"
proof (intro conjI impI)
  assume "faiss_index r = []"
  then show "faiss_retrieve q top_k r = Inl IndexEmpty" by (simp add: faiss_retrieve_def)
next
  assume h: "list_all (fits d) calls \<and> faiss_index (run_adds d calls) \<noteq> []"
    and "q_dtype q \<noteq> Float32"
  then show "faiss_retrieve q top_k (run_adds d calls) = Inl QueryNotFloat32"
    by (simp add: faiss_retrieve_def)
next
  assume h: "list_all (fits d) calls \<and> faiss_index (run_adds d calls) \<noteq> []"
    and b: "q_dtype q = Float32 \<and> (length (q_values q) \<noteq> d \<or> top_k \<le> 0)"
  from h have "embedding_dim (run_adds d calls) = d" using store_ok_run_adds by blast
  with h b show "faiss_retrieve q top_k (run_adds d calls) = Inl FaissAssertion"
    by (auto simp: faiss_retrieve_def index_search_def)
next
  assume h: "list_all (fits d) calls \<and> faiss_index (run_adds d calls) \<noteq> []"
    and g: "q_dtype q = Float32 \<and> length (q_values q) = d \<and> 0 < top_k"
  let ?r = "run_adds d calls"
  from h have ok: "store_ok ?r" and dim: "embedding_dim ?r = d"
    using store_ok_run_adds by blast+
  then have idx: "faiss_index ?r = embeddings ?r" by (simp add: store_ok_def)
  show "faiss_retrieve q top_k ?r
      = Inr (map (\<lambda>i. get_all ?r ! i) (knn (q_values q) (embeddings ?r) (nat top_k)))"
    using faiss_retrieve_ok [of ?r q top_k] ok h g dim idx by simp
next
  show "distinct (knn (q_values q) (embeddings (run_adds d calls)) (nat top_k))"
    by (rule knn_props(1))
next
  show "length (knn (q_values q) (embeddings (run_adds d calls)) (nat top_k))
      = min (nat top_k) (length (embeddings (run_adds d calls)))" by (rule knn_props(3))
next
  show "sorted (map (\<lambda>i. l2_sq (q_values q) (embeddings (run_adds d calls) ! i))
      (knn (q_values q) (embeddings (run_adds d calls)) (nat top_k)))" by (rule knn_props(4))
next
  assume h: "list_all (fits d) calls \<and> faiss_index (run_adds d calls) \<noteq> []"
  let ?r = "run_adds d calls"
  from h have ok: "store_ok ?r" using store_ok_run_adds by blast
  then have len: "length (get_all ?r) = length (embeddings ?r)"
    by (intro length_get_all) (simp_all add: store_ok_def)
  show "\<forall>i \<in> set (knn (q_values q) (embeddings ?r) (nat top_k)).
      i < length (get_all ?r) \<and>
      (\<forall>j < length (embeddings ?r). j \<notin> set (knn (q_values q) (embeddings ?r) (nat top_k)) \<longrightarrow>
         l2_sq (q_values q) (embeddings ?r ! i) \<le> l2_sq (q_values q) (embeddings ?r ! j))"
    using knn_props(2) [of "q_values q" "embeddings ?r" "nat top_k"] knn_nearest len
    by (metis lessThan_iff subsetD)
qed

theorem faiss_retrieve_nearest_witness:
  "list_all (fits 2) [([''a'', ''b'', ''c''], demo_array, None)] \<and>
   faiss_index (run_adds 2 [([''a'', ''b'', ''c''], demo_array, None)]) \<noteq> [] \<and>
   q_dtype demo_query = Float32 \<and> length (q_values demo_query) = 2 \<and> (0::int) < 2 \<and>
   faiss_retrieve demo_query 2 (run_adds 2 [([''a'', ''b'', ''c''], demo_array, None)]) =
     Inr [\<lparr> entry_text = ''c'', entry_embedding = [1, 0], entry_metadata = [] \<rparr>,
          \<lparr> entry_text = ''a'', entry_embedding = [0, 0], entry_metadata = [] \<rparr>] \<and>
   faiss_retrieve (demo_query\<lparr> q_dtype := Float64 \<rparr>) 2
       (run_adds 2 [([''a'', ''b'', ''c''], demo_array, None)]) = Inl QueryNotFloat32 \<and>
   faiss_retrieve demo_query 2 (faiss_init 2) = Inl IndexEmpty"
proof -
  let ?calls = "[([''a'', ''b'', ''c''], demo_array, None)]"
  have r: "run_adds 2 ?calls = demo_store" by (simp add: demo_store_run)
  have h: "list_all (fits 2) ?calls \<and> faiss_index (run_adds 2 ?calls) \<noteq> []"
    unfolding r by (simp add: demo_fits demo_store_eq)
  have g: "q_dtype demo_query = Float32 \<and> length (q_values demo_query) = 2 \<and> (0::int) < 2"
    by (simp add: demo_query_def)
  have n: "q_dtype (demo_query\<lparr> q_dtype := Float64 \<rparr>) \<noteq> Float32" by simp
  have e: "faiss_index (faiss_init 2) = []" by (simp add: faiss_init_def)
  have v: "q_values demo_query = [1, 1]" "embeddings demo_store = [[0, 0], [3, 4], [1, 0]]"
    by (simp_all add: demo_query_def demo_store_eq)
  have a: "faiss_retrieve demo_query 2 (run_adds 2 ?calls) =
     Inr [\<lparr> entry_text = ''c'', entry_embedding = [1, 0], entry_metadata = [] \<rparr>,
          \<lparr> entry_text = ''a'', entry_embedding = [0, 0], entry_metadata = [] \<rparr>]"
    using faiss_retrieve_nearest [of demo_store demo_query 2 2 ?calls] h g
    by (simp add: r v demo_knn demo_get_all)
  have b: "faiss_retrieve (demo_query\<lparr> q_dtype := Float64 \<rparr>) 2 (run_adds 2 ?calls)
      = Inl QueryNotFloat32"
    using faiss_retrieve_nearest [of demo_store "demo_query\<lparr> q_dtype := Float64 \<rparr>" 2 2 ?calls]
      h n by blast
  have c: "faiss_retrieve demo_query 2 (faiss_init 2) = Inl IndexEmpty"
    using faiss_retrieve_nearest [of "faiss_init 2" demo_query 2 2 ?calls] e by blast
  show ?thesis using h g a b c by blast
qed

text \<open>
  Claim C10, as stated, fails in three ways. On the store left by a rejected insertion
  followed by an accepted one, two entries are stored and \<open>top_k = 5\<close> returns one. On
  the store of three vectors a float32 query of three components with \<open>top_k = 5\<close>,
  and a query with \<open>top_k = 0\<close>, end in the assertion of the index search and return
  nothing.
\<close>

theorem faiss_retrieve_top_k_counterexample:
  "faiss_index skewed_store \<noteq> [] \<and> q_dtype origin_query = Float32 \<and>
   length (get_all skewed_store) = 2 \<and>
   faiss_retrieve origin_query 5 skewed_store
     = Inr [\<lparr> entry_text = ''bad'', entry_embedding = [9, 9, 9], entry_metadata = [] \<rparr>] \<and>
   faiss_index demo_store \<noteq> [] \<and> length (get_all demo_store) = 3 \<and>
   faiss_retrieve (demo_query\<lparr> q_values := [1, 1, 1] \<rparr>) 5 demo_store = Inl FaissAssertion \<and>
   faiss_retrieve demo_query 0 demo_store = Inl FaissAssertion"
proof -
  have a: "faiss_index skewed_store \<noteq> []" "q_dtype origin_query = Float32"
    "length (get_all skewed_store) = 2" "faiss_index demo_store \<noteq> []"
    "length (get_all demo_store) = 3"
    by (simp_all add: skewed_store_eq demo_store_eq get_all_def origin_query_def)
  have b: "faiss_retrieve origin_query 5 skewed_store
      = Inr [\<lparr> entry_text = ''bad'', entry_embedding = [9, 9, 9], entry_metadata = [] \<rparr>]"
    by (rule skewed_retrieve) simp
  have c: "faiss_retrieve (demo_query\<lparr> q_values := [1, 1, 1] \<rparr>) 5 demo_store
      = Inl FaissAssertion"
    "faiss_retrieve demo_query 0 demo_store = Inl FaissAssertion"
    by (simp_all add: demo_store_eq faiss_retrieve_def demo_query_def index_search_def)
  show ?thesis by (intro conjI a b c)
qed

text \<open>
  Claim C10, amended. Whenever \<open>retrieve\<close> returns, it returns at most \<open>top_k\<close> entries.
  On a non-empty store built from a new retriever of dimension \<open>d\<close> by \<open>add_texts\<close>
  calls whose arrays all have \<open>d\<close> columns, a float32 query of length \<open>d\<close> gets, for
  \<open>top_k \<ge> 1\<close>, exactly \<open>min top_k n\<close> of the \<open>n\<close> stored entries, and when \<open>top_k\<close>
  exceeds \<open>n\<close> exactly the stored entries, each once: the \<open>-1\<close> labels that pad the
  search result are skipped. For \<open>top_k \<le> 0\<close> the index search fails.
\<close>

theorem faiss_retrieve_at_most_top_k:
  "(\<forall>res. faiss_retrieve q top_k r = Inr res \<longrightarrow> int (length res) \<le> top_k) \<and>
   (list_all (fits d) calls \<and> faiss_index (run_adds d calls) \<noteq> [] \<and> q_dtype q = Float32
      \<and> length (q_values q) = d \<longrightarrow>
      (0 < top_k \<longrightarrow>
         (\<exists>res. faiss_retrieve q top_k (run_adds d calls) = Inr res \<and>
            length res = min (nat top_k) (length (get_all (run_adds d calls))) \<and>
            (int (length (get_all (run_adds d calls))) < top_k \<longrightarrow>
               mset res = mset (get_all (run_adds d calls))))) \<and>
      (top_k \<le> 0 \<longrightarrow> faiss_retrieve q top_k (run_adds d calls) = Inl FaissAssertion))"
proof (intro conjI impI allI)
  fix res assume "faiss_retrieve q top_k r = Inr res"
  then show "int (length res) \<le> top_k" by (rule faiss_retrieve_length)
next
  assume h: "list_all (fits d) calls \<and> faiss_index (run_adds d calls) \<noteq> [] \<and> q_dtype q = Float32
      \<and> length (q_values q) = d" and k: "0 < top_k"
  let ?r = "run_adds d calls"
  from h have ok: "store_ok ?r" and dim: "embedding_dim ?r = d"
    using store_ok_run_adds by blast+
  let ?ids = "knn (q_values q) (faiss_index ?r) (nat top_k)"
  let ?res = "map (\<lambda>i. get_all ?r ! i) ?ids"
  have r: "faiss_retrieve q top_k ?r = Inr ?res"
    using h k ok dim faiss_retrieve_ok [of ?r q top_k] by simp
  have len: "length (get_all ?r) = length (faiss_index ?r)"
    using ok by (intro length_get_all) (simp_all add: store_ok_def)
  have l: "length ?res = min (nat top_k) (length (get_all ?r))"
    using knn_props(3) [of "q_values q" "faiss_index ?r" "nat top_k"] len by simp
  have a: "mset ?res = mset (get_all ?r)" if "int (length (get_all ?r)) < top_k"
  proof -
    have "mset ?ids = mset [0..<length (get_all ?r)]"
      using that knn_all [of "faiss_index ?r" "nat top_k" "q_values q"] len by simp
    then have "mset ?res = mset (map (\<lambda>i. get_all ?r ! i) [0..<length (get_all ?r)])"
      by (metis mset_map)
    then show ?thesis by (simp add: map_nth)
  qed
  show "\<exists>res. faiss_retrieve q top_k ?r = Inr res \<and>
      length res = min (nat top_k) (length (get_all ?r)) \<and>
      (int (length (get_all ?r)) < top_k \<longrightarrow> mset res = mset (get_all ?r))"
    using r l a by blast
next
  assume h: "list_all (fits d) calls \<and> faiss_index (run_adds d calls) \<noteq> [] \<and> q_dtype q = Float32
      \<and> length (q_values q) = d" and k: "top_k \<le> 0"
  then show "faiss_retrieve q top_k (run_adds d calls) = Inl FaissAssertion"
    by (simp add: faiss_retrieve_def index_search_def)
qed

theorem faiss_retrieve_at_most_top_k_witness:
  "list_all (fits 2) [([''a'', ''b'', ''c''], demo_array, None)] \<and>
   faiss_index (run_adds 2 [([''a'', ''b'', ''c''], demo_array, None)]) \<noteq> [] \<and>
   q_dtype demo_query = Float32 \<and> length (q_values demo_query) = 2 \<and>
   (\<exists>res. faiss_retrieve demo_query 5 (run_adds 2 [([''a'', ''b'', ''c''], demo_array, None)])
        = Inr res \<and> length res = 3 \<and>
      mset res = mset (get_all (run_adds 2 [([''a'', ''b'', ''c''], demo_array, None)]))) \<and>
   (\<exists>res. faiss_retrieve demo_query 2 (run_adds 2 [([''a'', ''b'', ''c''], demo_array, None)])
        = Inr res \<and> length res = 2) \<and>
   faiss_retrieve demo_query 0 (run_adds 2 [([''a'', ''b'', ''c''], demo_array, None)])
     = Inl FaissAssertion"
proof -
  let ?calls = "[([''a'', ''b'', ''c''], demo_array, None)]"
  have r: "run_adds 2 ?calls = demo_store" by (simp add: demo_store_run)
  have h: "list_all (fits 2) ?calls \<and> faiss_index (run_adds 2 ?calls) \<noteq> [] \<and>
      q_dtype demo_query = Float32 \<and> length (q_values demo_query) = 2"
    unfolding r by (simp add: demo_fits demo_store_eq demo_query_def)
  have g: "length (get_all (run_adds 2 ?calls)) = 3" unfolding r by (simp add: demo_get_all)
  have a: "\<exists>res. faiss_retrieve demo_query 5 (run_adds 2 ?calls) = Inr res \<and> length res = 3 \<and>
      mset res = mset (get_all (run_adds 2 ?calls))"
    using faiss_retrieve_at_most_top_k [of demo_query 5 demo_store 2 ?calls] h g by simp
  have b: "\<exists>res. faiss_retrieve demo_query 2 (run_adds 2 ?calls) = Inr res \<and> length res = 2"
    using faiss_retrieve_at_most_top_k [of demo_query 2 demo_store 2 ?calls] h g by auto
  have c: "faiss_retrieve demo_query 0 (run_adds 2 ?calls) = Inl FaissAssertion"
    using faiss_retrieve_at_most_top_k [of demo_query 0 demo_store 2 ?calls] h by simp
  show ?thesis using h a b c by blast
qed

section \<open>Risk exposure\<close>

lemma filter_filter_conj: "filter P (filter Q xs) = filter (\<lambda>x. Q x \<and> P x) xs"
  by (induction xs) auto

lemma fetch_loop_snd:
  "snd (fetch_loop m xs (h, sl)) =
     filter (\<lambda>s. \<not> (s \<in> set xs \<and> get_historical_data m s 30 = [])) sl"
proof (induction xs arbitrary: h sl)
  case Nil
  show ?case by simp
next
  case (Cons x xs)
  show ?case
    by (auto simp: Let_def Cons.IH filter_filter_conj intro!: filter_cong)
qed

lemma fetch_loop_fst:
  "fst (fetch_loop m xs (h, sl)) s =
     (if s \<in> set xs then Some (get_historical_data m s 30) else h s)"
  by (induction xs arbitrary: h sl) (auto simp: Let_def)

lemma retained_eq:
  "retained m stock_list = filter (\<lambda>s. get_historical_data m s 30 \<noteq> []) stock_list"
  unfolding retained_def fetch_loop_snd by (rule filter_cong) auto

lemma data_of_eq:
  "data_of m stock_list =
     close_frame (fst (fetch_loop m stock_list (Map.empty, stock_list))) (retained m stock_list)"
  by (simp add: data_of_def retained_def split: prod.splits)

lemma analyze_eq:
  "analyze_risk_exposure m stock_list allocation_data =
     (if retained m stock_list = [] then
        ErrorRecord ''No data available for any of the provided stocks.''
      else case risk_body m (fst (fetch_loop m stock_list (Map.empty, stock_list)))
                  (retained m stock_list) allocation_data of
          Inl e \<Rightarrow> EmptyDict | Inr r \<Rightarrow> Analysis r)"
  by (simp add: analyze_risk_exposure_def retained_def split: prod.splits)

text \<open>
  Claim C1. When the historical-data fetch gives an empty table for every symbol of the
  list, \<open>analyze_risk_exposure\<close> returns the error record
  \<open>{"error": "No data available for any of the provided stocks."}\<close>, whatever the
  allocation table is.
\<close>

theorem all_symbols_dropped_gives_error:
  assumes "\<forall>s \<in> set stock_list. get_historical_data m s 30 = []"
  shows "analyze_risk_exposure m stock_list allocation_data =
     ErrorRecord ''No data available for any of the provided stocks.''"
proof -
  have "retained m stock_list = []"
    using assms by (simp add: retained_eq)
  then show ?thesis
    by (simp add: analyze_eq)
qed

theorem all_symbols_dropped_gives_error_witness:
  "list_all (\<lambda>s. get_historical_data dark_market s 30 = []) main_stocks \<and>
   analyze_risk_exposure dark_market main_stocks main_alloc =
     ErrorRecord ''No data available for any of the provided stocks.''"
proof -
  have h: "\<forall>s \<in> set main_stocks. get_historical_data dark_market s 30 = []"
    by (simp add: main_stocks_def dark_market_def get_historical_data_def)
  from all_symbols_dropped_gives_error [OF h, of main_alloc] h show ?thesis
    by (simp add: list_all_iff)
qed

lemma main_hist:
  "get_historical_data main_market s 30 =
     [(3 * usec_per_day, demo_bar 110), (2 * usec_per_day, demo_bar 100),
      (1 * usec_per_day, demo_bar 80)]"
  by (simp add: get_historical_data_def main_market_def usec_per_day_def)

lemma risk_body_loc_KeyError:
  assumes "\<exists>s \<in> set stock_list. s \<notin> set (a_index allocation_data)"
  shows "\<exists>e. risk_body m historical_data stock_list allocation_data = Inl e"
proof -
  have "loc_rows allocation_data stock_list = Inl KeyError"
    using assms by (auto simp: loc_rows_def list_ex_iff)
  then show ?thesis
    by (simp add: risk_body_def Let_def split: sum.splits)
qed

lemma risk_body_columns_KeyError:
  assumes "\<exists>s \<in> set stock_list. s \<notin> set (a_columns allocation_data)"
  shows "\<exists>e. risk_body m historical_data stock_list allocation_data = Inl e"
proof -
  have "select_columns allocation_data stock_list = Inl KeyError"
    using assms by (auto simp: select_columns_def list_ex_iff)
  then show ?thesis
    by (simp add: risk_body_def Let_def split: sum.splits option.splits)
qed

lemma analysis_needs_row_and_column_labels:
  assumes "analyze_risk_exposure m stock_list allocation_data = Analysis r"
  shows "set (retained m stock_list) \<subseteq> set (a_index allocation_data) \<inter> set (a_columns allocation_data)"
proof (rule ccontr)
  assume "\<not> ?thesis"
  then have "(\<exists>s \<in> set (retained m stock_list). s \<notin> set (a_index allocation_data)) \<or>
      (\<exists>s \<in> set (retained m stock_list). s \<notin> set (a_columns allocation_data))"
    by auto
  then have "\<exists>e. risk_body m (fst (fetch_loop m stock_list (Map.empty, stock_list)))
      (retained m stock_list) allocation_data = Inl e"
    using risk_body_loc_KeyError risk_body_columns_KeyError by blast
  then show False using assms by (auto simp: analyze_eq split: if_splits)
qed

text \<open>
  Claim C2 (the code does not deliver it). Line 105 selects the weights with
  \<open>allocation_data.loc[stock_list]\<close>, that is by row label. Whenever a retained symbol
  is not a row label of the allocation table, as in the table of the module's own
  example, whose rows are labelled \<open>portfolio_allocation\<close> and whose columns are the
  symbols, the lookup raises and \<open>analyze_risk_exposure\<close> returns the empty dict: no
  \<open>portfolio_risk\<close> is returned.
\<close>

theorem weights_by_row_label_gives_empty_dict:
  assumes "\<exists>s \<in> set (retained m stock_list). s \<notin> set (a_index allocation_data)"
  shows "analyze_risk_exposure m stock_list allocation_data = EmptyDict"
proof -
  from assms have ne: "retained m stock_list \<noteq> []" by auto
  from risk_body_loc_KeyError [OF assms]
  obtain e where "risk_body m (fst (fetch_loop m stock_list (Map.empty, stock_list)))
      (retained m stock_list) allocation_data = Inl e" by blast
  with ne show ?thesis by (simp add: analyze_eq)
qed

theorem weights_by_row_label_gives_empty_dict_witness:
  "(\<exists>s \<in> set (retained main_market [''AAPL'']). s \<notin> set (a_index main_alloc)) \<and>
   analyze_risk_exposure main_market [''AAPL''] main_alloc = EmptyDict"
proof -
  have r: "retained main_market [''AAPL''] = [''AAPL'']"
    by (simp add: retained_eq main_hist)
  have h: "\<exists>s \<in> set (retained main_market [''AAPL'']). s \<notin> set (a_index main_alloc)"
    by (simp add: r main_alloc_def)
  from weights_by_row_label_gives_empty_dict [OF h] h show ?thesis by simp
qed

lemma main_retained: "retained main_market main_stocks = main_stocks"
  by (simp add: retained_eq main_hist main_stocks_def)

text \<open>
  Claim C3 (the code does not deliver it). On the stock list and the allocation table
  of the module's own example, with daily bars for every symbol, the weight lookup of
  line 105 raises before lines 127 to 129 are reached: the call returns the empty dict,
  so no \<open>allocation_percentage\<close> is returned.
\<close>

theorem main_example_gives_empty_dict:
  "analyze_risk_exposure main_market main_stocks main_alloc = EmptyDict"
proof -
  have "\<exists>s \<in> set (retained main_market main_stocks). s \<notin> set (a_index main_alloc)"
    unfolding main_retained by (simp add: main_stocks_def main_alloc_def)
  from risk_body_loc_KeyError [OF this]
  obtain e where "risk_body main_market
      (fst (fetch_loop main_market main_stocks (Map.empty, main_stocks)))
      (retained main_market main_stocks) main_alloc = Inl e" by blast
  moreover have "retained main_market main_stocks \<noteq> []"
    unfolding main_retained by (simp add: main_stocks_def)
  ultimately show ?thesis by (simp add: analyze_eq)
qed

theorem main_example_gives_empty_dict_witness:
  "(case analyze_risk_exposure main_market main_stocks main_alloc of
      Analysis r \<Rightarrow> Some (allocation_percentage r) | _ \<Rightarrow> None) = None"
  using main_example_gives_empty_dict by simp

lemma solo_hist:
  "fst (fetch_loop m [''AAPL''] (Map.empty, [''AAPL''])) ''AAPL''
     = Some (get_historical_data m ''AAPL'' 30)"
  by (simp add: fetch_loop_fst del: fetch_loop.simps)

lemma numeric_hist:
  "get_historical_data numeric_market s 30 =
     [(3 * usec_per_day, demo_bar 110), (2 * usec_per_day, demo_bar 100),
      (1 * usec_per_day, demo_bar 80)]"
  by (simp add: get_historical_data_def numeric_market_def main_market_def usec_per_day_def)

lemma solo_data:
  assumes "h ''AAPL'' = Some [(a, demo_bar 110), (b, demo_bar 100), (c, demo_bar 80)]"
  shows "close_frame h [''AAPL''] =
    Inr \<lparr> f_index = [a, b, c], f_columns = [''AAPL''],
          f_data = [[Num 110, Num 100, Num 80]] \<rparr>"
  using assms by (simp add: close_frame_def close_series_def frame_from_series_def demo_bar_def)

lemma solo_returns:
  "dropna (pct_change p \<lparr> f_index = [a, b, c], f_columns = [''AAPL''],
      f_data = [[Num 110, Num 100, Num 80]] \<rparr>)
   = \<lparr> f_index = [b, c], f_columns = [''AAPL''],
       f_data = [[Num (- (1 / 11)), Num (- (1 / 5))]] \<rparr>"
  by (simp add: dropna_def pct_change_def pct_change_col_def ffill_def shift1_def fl_sub_def
      upt_rec)

lemma solo_str:
  assumes "h ''AAPL'' = Some [(a, demo_bar 110), (b, demo_bar 100), (c, demo_bar 80)]"
  shows "risk_body main_market h [''AAPL''] solo_alloc = Inl TypeError"
proof -
  note d = solo_data [of h, OF assms]
  show ?thesis
    by (simp add: risk_body_def d solo_returns Let_def loc_rows_def solo_alloc_def
      mul_frame_array_def frame_rows_def upt_rec main_market_def previous_prices_def
      price_change_of_def series_get_def)
qed

lemma solo_num:
  assumes "h ''AAPL'' = Some [(a, demo_bar 110), (b, demo_bar 100), (c, demo_bar 80)]"
  shows "\<exists>r. risk_body numeric_market h [''AAPL''] solo_alloc = Inr r \<and>
     largest_change_stock r = ''AAPL'' \<and> largest_change_value r = [Num 70] \<and>
     allocation_percentage r = Num 100"
proof -
  note d = solo_data [of h, OF assms]
  show ?thesis
    by (simp add: risk_body_def d solo_returns Let_def loc_rows_def solo_alloc_def
      mul_frame_array_def frame_rows_def upt_rec numeric_market_def main_market_def
      previous_prices_def price_change_of_def series_get_def idxmax_def fl_sub_def
      select_columns_def alloc_shift1_def sum_sum_def nansum_def fl_sum_def alloc_columns_def
      alloc_empty_def)
qed

text \<open>
  The price loops themselves do what the claim describes once they are reached with
  numeric prices: the stock reported is a label whose absolute price change is not NaN
  and is exceeded by no other.
\<close>

lemma fl_less_trans: "fl_less a b \<Longrightarrow> fl_less b c \<Longrightarrow> fl_less a c"
  by (cases a; cases b; cases c) auto

lemma fl_less_irrefl: "\<not> fl_less a a"
  by (cases a) auto

lemma idxmax_from_max:
  assumes "idxmax_from best s = Some l"
    and "\<forall>bl bv. best = Some (bl, bv) \<longrightarrow> bv \<noteq> NaN \<and> (bl, bv) \<in> S
          \<and> (\<forall>(l', v') \<in> S. v' \<noteq> NaN \<longrightarrow> \<not> fl_less bv v')"
    and "best = None \<longrightarrow> (\<forall>(l', v') \<in> S. v' = NaN)"
  shows "\<exists>v. (l, v) \<in> S \<union> set s \<and> v \<noteq> NaN \<and>
     (\<forall>(l', v') \<in> S \<union> set s. v' \<noteq> NaN \<longrightarrow> \<not> fl_less v v')"
  using assms
proof (induction s arbitrary: best S)
  case Nil
  then show ?case by (cases best) auto
next
  case (Cons x s)
  obtain xl xv where x: "x = (xl, xv)" by (cases x)
  show ?case
  proof (cases "xv = NaN")
    case True
    with Cons.prems x have r: "idxmax_from best s = Some l" by simp
    have "\<exists>v. (l, v) \<in> insert x S \<union> set s \<and> v \<noteq> NaN \<and>
        (\<forall>(l', v') \<in> insert x S \<union> set s. v' \<noteq> NaN \<longrightarrow> \<not> fl_less v v')"
    proof (rule Cons.IH [OF r])
      show "\<forall>bl bv. best = Some (bl, bv) \<longrightarrow> bv \<noteq> NaN \<and> (bl, bv) \<in> insert x S
          \<and> (\<forall>(l', v') \<in> insert x S. v' \<noteq> NaN \<longrightarrow> \<not> fl_less bv v')"
        using Cons.prems(2) True x by auto
      show "best = None \<longrightarrow> (\<forall>(l', v') \<in> insert x S. v' = NaN)"
        using Cons.prems(3) True x by auto
    qed
    then show ?thesis by simp
  next
    case False
    let ?new = "(case best of None \<Rightarrow> True | Some (bl, bv) \<Rightarrow> fl_less bv xv)"
    let ?best' = "(if ?new then Some (xl, xv) else best)"
    have r: "idxmax_from ?best' s = Some l"
      using Cons.prems(1) x False by (auto split: option.splits)
    have "\<exists>v. (l, v) \<in> insert x S \<union> set s \<and> v \<noteq> NaN \<and>
        (\<forall>(l', v') \<in> insert x S \<union> set s. v' \<noteq> NaN \<longrightarrow> \<not> fl_less v v')"
    proof (rule Cons.IH [OF r])
      show "\<forall>bl bv. ?best' = Some (bl, bv) \<longrightarrow> bv \<noteq> NaN \<and> (bl, bv) \<in> insert x S
          \<and> (\<forall>(l', v') \<in> insert x S. v' \<noteq> NaN \<longrightarrow> \<not> fl_less bv v')"
      proof (cases best)
        case None
        then show ?thesis using Cons.prems(3) False x by (auto simp: fl_less_irrefl)
      next
        case (Some b)
        obtain bl bv where b: "b = (bl, bv)" by (cases b)
        show ?thesis
        proof (cases "fl_less bv xv")
          case True
          have "\<not> fl_less xv v'" if "(l', v') \<in> S" "v' \<noteq> NaN" for l' v'
          proof
            assume "fl_less xv v'"
            with True have "fl_less bv v'" by (rule fl_less_trans)
            moreover have "\<not> fl_less bv v'" using Cons.prems(2) Some b that by blast
            ultimately show False by simp
          qed
          then show ?thesis using Some b True False x by (auto simp: fl_less_irrefl)
        next
          case nl: False
          then show ?thesis using Cons.prems(2) Some b x by auto
        qed
      qed
      show "?best' = None \<longrightarrow> (\<forall>(l', v') \<in> insert x S. v' = NaN)"
        by (auto split: option.splits)
    qed
    then show ?thesis by simp
  qed
qed

lemma idxmax_is_argmax:
  assumes "idxmax s = Some l"
  shows "\<exists>v. (l, v) \<in> set s \<and> v \<noteq> NaN \<and>
     (\<forall>(l', v') \<in> set s. v' \<noteq> NaN \<longrightarrow> \<not> fl_less v v')"
  using idxmax_from_max [of None s l "{}"] assms by (simp add: idxmax_def)

lemma analysis_largest_change:
  assumes "analyze_risk_exposure m stock_list allocation_data = Analysis r"
  shows "\<exists>data latest price_change.
     data_of m stock_list = Inr data \<and>
     latest_prices m (retained m stock_list) = Inr latest \<and>
     price_changes latest (previous_prices data (retained m stock_list)) (retained m stock_list)
       = Inr price_change \<and>
     idxmax (map (\<lambda>(l, v). (l, fl_abs v)) price_change) = Some (largest_change_stock r) \<and>
     largest_change_value r
       = map snd (filter (\<lambda>(l, v). l = largest_change_stock r) price_change)"
  using assms
  by (auto simp: analyze_eq data_of_eq risk_body_def Let_def
      split: if_splits sum.splits option.splits)

text \<open>
  Claim C6 (the code does not deliver it). With an allocation table that passes the
  weight lookup, a quote whose price is the string the provider sent makes line 121
  subtract a float from a string: the call returns the empty dict, where the same call
  with a numeric price returns the symbol and its signed difference to the last row of
  the close table.
\<close>

theorem string_price_gives_empty_dict:
  "analyze_risk_exposure main_market [''AAPL''] solo_alloc = EmptyDict \<and>
   (\<exists>r. analyze_risk_exposure numeric_market [''AAPL''] solo_alloc = Analysis r \<and>
      largest_change_stock r = ''AAPL'' \<and> largest_change_value r = [Num 70])"
proof -
  have r1: "retained main_market [''AAPL''] = [''AAPL'']"
    by (simp add: retained_eq main_hist)
  have r2: "retained numeric_market [''AAPL''] = [''AAPL'']"
    by (simp add: retained_eq numeric_hist)
  have h1: "fst (fetch_loop main_market [''AAPL''] (Map.empty, [''AAPL''])) ''AAPL''
      = Some [(3 * usec_per_day, demo_bar 110), (2 * usec_per_day, demo_bar 100),
          (1 * usec_per_day, demo_bar 80)]"
    unfolding solo_hist main_hist ..
  have h2: "fst (fetch_loop numeric_market [''AAPL''] (Map.empty, [''AAPL''])) ''AAPL''
      = Some [(3 * usec_per_day, demo_bar 110), (2 * usec_per_day, demo_bar 100),
          (1 * usec_per_day, demo_bar 80)]"
    unfolding solo_hist numeric_hist ..
  have a: "analyze_risk_exposure main_market [''AAPL''] solo_alloc = EmptyDict"
    unfolding analyze_eq r1
    using solo_str [of "fst (fetch_loop main_market [''AAPL''] (Map.empty, [''AAPL'']))", OF h1]
    by simp
  from solo_num [of "fst (fetch_loop numeric_market [''AAPL''] (Map.empty, [''AAPL'']))", OF h2]
  obtain r where
    "risk_body numeric_market (fst (fetch_loop numeric_market [''AAPL''] (Map.empty, [''AAPL''])))
       [''AAPL''] solo_alloc = Inr r"
    "largest_change_stock r = ''AAPL''" "largest_change_value r = [Num 70]"
    by blast
  then have "analyze_risk_exposure numeric_market [''AAPL''] solo_alloc = Analysis r \<and>
      largest_change_stock r = ''AAPL'' \<and> largest_change_value r = [Num 70]"
    unfolding analyze_eq r2 by simp
  with a show ?thesis by blast
qed

theorem string_price_gives_empty_dict_witness:
  "(case analyze_risk_exposure main_market [''AAPL''] solo_alloc of
      Analysis r \<Rightarrow> Some (largest_change_stock r) | _ \<Rightarrow> None) = None"
  using string_price_gives_empty_dict by simp































































end
